theory Spec2Isabelle
  imports Complex_Main "HOL-Library.Monad_Syntax"
begin

section \<open>Entity model: Node, Edge and Graph (graph.cpp, node.cpp, edge.cpp)\<close>

text \<open>
  A \<open>qreal\<close> is modelled as a real number (rounding is not modelled), a \<open>QPointF\<close> as a
  pair of reals.  An object pointer (\<open>Node *\<close>, \<open>Edge *\<close>, \<open>Graph *\<close>) is modelled as the
  address of the object, a natural number; \<open>nullptr\<close> is \<open>None\<close>.
  A Graph owns its child items: the children are kept by value in the list
  \<open>childItems\<close>, in the order in which \<open>QGraphicsItem::childItems()\<close> enumerates them.
  Since canvasscene.cpp V1.16 a Graph is never the child of a Graph, so an item is
  a Node or an Edge.
\<close>

type_synonym ident = nat
type_synonym QPointF = "real \<times> real"
type_synonym QRectF = "real \<times> real \<times> real \<times> real"

definition padd :: "QPointF \<Rightarrow> QPointF \<Rightarrow> QPointF" where
  "padd p q = (fst p + fst q, snd p + snd q)"

definition psub :: "QPointF \<Rightarrow> QPointF \<Rightarrow> QPointF" where
  "psub p q = (fst p - fst q, snd p - snd q)"

record Node =
  nodeRef :: ident
  npos :: QPointF
  nrotation :: real
  nodeDiameter :: real
  physicalDotsPerInchX :: real
  edgeList :: "ident list"
  nchecked :: int
  nlabel :: string

record Edge =
  edgeRef :: ident
  epos :: QPointF
  erotation :: real
  source :: ident
  dest :: ident
  sourceRadius :: real
  destRadius :: real
  echecked :: int

datatype Item = NodeItem Node | EdgeItem Edge

record Graph =
  gpos :: QPointF
  grotation :: real
  childItems :: "Item list"

text \<open>\<open>Node::getDiameter()\<close>: the diameter in inches.\<close>

definition getDiameter :: "Node \<Rightarrow> real" where
  "getDiameter n = nodeDiameter n / physicalDotsPerInchX n"

text \<open>\<open>QGraphicsItem::pos()\<close>, \<open>rotation()\<close> and \<open>setRotation()\<close> of an item.\<close>

fun itemPos :: "Item \<Rightarrow> QPointF" where
  "itemPos (NodeItem n) = npos n"
| "itemPos (EdgeItem e) = epos e"

fun itemRotation :: "Item \<Rightarrow> real" where
  "itemRotation (NodeItem n) = nrotation n"
| "itemRotation (EdgeItem e) = erotation e"

fun itemSetRotation :: "real \<Rightarrow> Item \<Rightarrow> Item" where
  "itemSetRotation a (NodeItem n) = NodeItem (n\<lparr>nrotation := a\<rparr>)"
| "itemSetRotation a (EdgeItem e) = EdgeItem (e\<lparr>erotation := a\<rparr>)"

fun itemSetPos :: "QPointF \<Rightarrow> Item \<Rightarrow> Item" where
  "itemSetPos p (NodeItem n) = NodeItem (n\<lparr>npos := p\<rparr>)"
| "itemSetPos p (EdgeItem e) = EdgeItem (e\<lparr>epos := p\<rparr>)"

text \<open>
  A Graph has no parent item, no scale and the default transformation origin, so a
  point of its coordinate system is mapped to the scene by the rotation of the graph
  (degrees, as \<open>QTransform::rotate\<close>) followed by the translation to its position.
  \<open>scenePos\<close> of a child is the image of the child's \<open>pos()\<close>.
\<close>

definition toParent :: "QPointF \<Rightarrow> real \<Rightarrow> QPointF \<Rightarrow> QPointF" where
  "toParent origin rotation p =
     (let t = rotation * pi / 180
      in (fst origin + (fst p * cos t - snd p * sin t),
          snd origin + (fst p * sin t + snd p * cos t)))"

definition mapToScene :: "Graph \<Rightarrow> QPointF \<Rightarrow> QPointF" where
  "mapToScene g p = toParent (gpos g) (grotation g) p"

definition scenePos :: "Graph \<Rightarrow> Item \<Rightarrow> QPointF" where
  "scenePos g it = mapToScene g (itemPos it)"

fun nodeChildren :: "Item list \<Rightarrow> Node list" where
  "nodeChildren [] = []"
| "nodeChildren (NodeItem n # its) = n # nodeChildren its"
| "nodeChildren (EdgeItem e # its) = nodeChildren its"

fun edgeChildren :: "Item list \<Rightarrow> Edge list" where
  "edgeChildren [] = []"
| "edgeChildren (NodeItem n # its) = edgeChildren its"
| "edgeChildren (EdgeItem e # its) = e # edgeChildren its"

subsection \<open>\<open>Graph::boundingBox\<close>\<close>

text \<open>The local variables of \<open>boundingBox\<close> that the loop updates.\<close>

record bbox =
  firstNode :: bool
  minx :: real
  maxx :: real
  miny :: real
  maxy :: real
  RGminx :: real
  RGmaxx :: real
  RGminy :: real
  RGmaxy :: real

definition bbox_init :: bbox where
  "bbox_init = \<lparr>firstNode = True, minx = 0, maxx = 0, miny = 0, maxy = 0,
                 RGminx = 0, RGmaxx = 0, RGminy = 0, RGmaxy = 0\<rparr>"

text \<open>
  The body of the loop for one child.  \<open>dpi\<close> is the global \<open>currentPhysicalDPI\<close>
  (defined in mainwindow.cpp from the screen), a parameter here.
\<close>

fun bbox_item :: "real \<Rightarrow> bool \<Rightarrow> Graph \<Rightarrow> Item \<Rightarrow> bbox \<Rightarrow> bbox" where
  "bbox_item dpi useNodeSizes g (NodeItem n) b =
     (let x = fst (scenePos g (NodeItem n));
          y = snd (scenePos g (NodeItem n));
          RGx = fst (npos n);
          RGy = snd (npos n);
          r = (if useNodeSizes then getDiameter n / 2 * dpi else 0)
      in if firstNode b
         then b\<lparr>firstNode := False,
                minx := x - r, maxx := x + r, miny := y - r, maxy := y + r,
                RGminx := RGx, RGmaxx := RGx, RGminy := RGy, RGmaxy := RGy\<rparr>
         else
           (let b1 = (if x + r > maxx b then b\<lparr>maxx := x + r\<rparr>
                      else if x - r < minx b then b\<lparr>minx := x - r\<rparr> else b);
                b2 = (if y + r > maxy b1 then b1\<lparr>maxy := y + r\<rparr>
                      else if y - r < miny b1 then b1\<lparr>miny := y - r\<rparr> else b1);
                b3 = (if RGx > RGmaxx b2 then b2\<lparr>RGmaxx := RGx\<rparr>
                      else if RGx < RGminx b2 then b2\<lparr>RGminx := RGx\<rparr> else b2);
                b4 = (if RGy > RGmaxy b3 then b3\<lparr>RGmaxy := RGy\<rparr>
                      else if RGy < RGminy b3 then b3\<lparr>RGminy := RGy\<rparr> else b3)
            in b4))"
| "bbox_item dpi useNodeSizes g (EdgeItem e) b = b"

definition bbox_loop :: "real \<Rightarrow> bool \<Rightarrow> Graph \<Rightarrow> bbox" where
  "bbox_loop dpi useNodeSizes g = fold (bbox_item dpi useNodeSizes g) (childItems g) bbox_init"

text \<open>
  \<open>boundingBox\<close> returns the rectangle \<open>(x, y, width, height)\<close>; the two out-parameters
  \<open>center\<close> and \<open>RGcenter\<close> are returned with it.
\<close>

definition boundingBox :: "real \<Rightarrow> Graph \<Rightarrow> bool \<Rightarrow> QRectF \<times> QPointF \<times> QPointF" where
  "boundingBox dpi g useNodeSizes =
     (let b = bbox_loop dpi useNodeSizes g
      in ((minx b, miny b, maxx b - minx b, maxy b - miny b),
          ((maxx b + minx b) / 2, (maxy b + miny b) / 2),
          ((RGmaxx b + RGminx b) / 2, (RGmaxy b + RGminy b) / 2)))"

text \<open>The x-range and y-range of a \<open>QRectF\<close>: \<open>[left(), right()]\<close> and \<open>[top(), bottom()]\<close>.\<close>

definition xRange :: "QRectF \<Rightarrow> real \<times> real" where
  "xRange r = (case r of (x, y, w, h) \<Rightarrow> (x, x + w))"

definition yRange :: "QRectF \<Rightarrow> real \<times> real" where
  "yRange r = (case r of (x, y, w, h) \<Rightarrow> (y, y + h))"

subsection \<open>\<open>Graph::setRotation\<close> and \<open>Graph::centerGraph\<close>\<close>

text \<open>
  \<open>setRotation\<close> works through the list of children until it is empty; each child that
  is a Node or an Edge gets the rotation \<open>-newRotation\<close> and leaves the list, so the
  loop is one pass over the children.
\<close>

definition setRotation :: "real \<Rightarrow> bool \<Rightarrow> Graph \<Rightarrow> Graph" where
  "setRotation rotationAmount rotationIsRelative g =
     (let newRotation = (if rotationIsRelative then grotation g + rotationAmount
                         else rotationAmount)
      in g\<lparr>childItems := map (itemSetRotation (- newRotation)) (childItems g),
            grotation := newRotation\<rparr>)"

text \<open>
  \<open>centerGraph\<close> calls \<open>boundingBox(nullptr, false, &RGcenter)\<close>; with
  \<open>useNodeSizes = false\<close> the radius is 0 and \<open>currentPhysicalDPI\<close> is not read.
\<close>

fun centerItem :: "QPointF \<Rightarrow> Item \<Rightarrow> Item" where
  "centerItem c (NodeItem n) = NodeItem (n\<lparr>npos := psub (npos n) c\<rparr>)"
| "centerItem c (EdgeItem e) = EdgeItem e"

definition centerGraph :: "Graph \<Rightarrow> Graph" where
  "centerGraph g =
     (let RGcenter = snd (snd (boundingBox 0 g False))
      in g\<lparr>childItems := map (centerItem RGcenter) (childItems g),
            gpos := padd (gpos g) RGcenter\<rparr>)"



subsection \<open>\<open>Graph::centerGraph\<close> in double arithmetic\<close>

text \<open>
  \<open>qreal\<close> is \<open>double\<close>.  \<open>double x\<close> is the binary64 number nearest to \<open>x\<close>, ties to the
  even mantissa; the range of the exponent is not bounded here, so overflow and gradual
  underflow are not modelled.  \<open>binade x\<close> is the exponent of \<open>x\<close> and \<open>rne\<close> rounds to the
  nearest integer, ties to even.
\<close>

definition binade :: "real \<Rightarrow> int" where
  "binade x = \<lfloor>log 2 \<bar>x\<bar>\<rfloor>"

definition rne :: "real \<Rightarrow> int" where
  "rne y = (let f = \<lfloor>y\<rfloor>
            in if y - of_int f < 1 / 2 then f
               else if 1 / 2 < y - of_int f then f + 1
               else if even f then f else f + 1)"

definition double :: "real \<Rightarrow> real" where
  "double x = (if x = 0 then 0
               else of_int (rne (x / 2 powr of_int (binade x - 52))) * 2 powr of_int (binade x - 52))"

text \<open>
  \<open>QGraphicsItem::setPos\<close> returns at once if the new position compares equal to the old
  one.  The comparison of two \<open>QPointF\<close> is fuzzy and is not the same in all versions of
  Qt 5: it is a parameter of \<open>setPos\<close>.  \<open>samePoint_null\<close> tests both differences with
  \<open>qFuzzyIsNull\<close>; \<open>samePoint_compare\<close> tests a coordinate with \<open>qFuzzyCompare\<close> unless one
  of the two values is 0.
\<close>

definition qFuzzyIsNull :: "real \<Rightarrow> bool" where
  "qFuzzyIsNull d \<longleftrightarrow> \<bar>d\<bar> \<le> 1 / 10 ^ 12"

definition qFuzzyCompare :: "real \<Rightarrow> real \<Rightarrow> bool" where
  "qFuzzyCompare p1 p2 \<longleftrightarrow> \<bar>p1 - p2\<bar> * 10 ^ 12 \<le> min \<bar>p1\<bar> \<bar>p2\<bar>"



definition setPos :: "(QPointF \<Rightarrow> QPointF \<Rightarrow> bool) \<Rightarrow> QPointF \<Rightarrow> QPointF \<Rightarrow> QPointF" where
  "setPos same old new = (if same old new then old else new)"

text \<open>
  \<open>RGcenter\<close> as \<open>boundingBox\<close> computes it, \<open>(RGmaxx + RGminx) / 2.\<close> and
  \<open>(RGmaxy + RGminy) / 2.\<close>, and \<open>centerGraph\<close> with the differences
  \<open>node->pos() - RGcenter\<close> and the sum \<open>pos() + RGcenter\<close> rounded.  The least and the
  greatest coordinates are found by comparisons, which are exact.
\<close>

definition RGcenterD :: "Graph \<Rightarrow> QPointF" where
  "RGcenterD g =
     (let b = bbox_loop 0 False g
      in (double (double (RGmaxx b + RGminx b) / 2), double (double (RGmaxy b + RGminy b) / 2)))"

fun centerItemD :: "(QPointF \<Rightarrow> QPointF \<Rightarrow> bool) \<Rightarrow> QPointF \<Rightarrow> Item \<Rightarrow> Item" where
  "centerItemD same c (NodeItem n) =
     NodeItem (n\<lparr>npos := setPos same (npos n)
                              (double (fst (npos n) - fst c), double (snd (npos n) - snd c))\<rparr>)"
| "centerItemD same c (EdgeItem e) = EdgeItem e"

definition centerGraphD :: "(QPointF \<Rightarrow> QPointF \<Rightarrow> bool) \<Rightarrow> Graph \<Rightarrow> Graph" where
  "centerGraphD same g =
     (let RGcenter = RGcenterD g
      in g\<lparr>childItems := map (centerItemD same RGcenter) (childItems g),
            gpos := setPos same (gpos g)
                      (double (fst (gpos g) + fst RGcenter), double (snd (gpos g) + snd RGcenter))\<rparr>)"


text \<open>\<open>Node::Node()\<close> and \<open>Graph::Graph()\<close>: the fields a new object starts with
  (\<open>dpiX\<close> is the global \<open>currentPhysicalDPI_X\<close>).\<close>

definition newNode :: "ident \<Rightarrow> real \<Rightarrow> Node" where
  "newNode ref dpiX = \<lparr>nodeRef = ref, npos = (0, 0), nrotation = 0, nodeDiameter = 1,
      physicalDotsPerInchX = dpiX, edgeList = [], nchecked = 0, nlabel = []\<rparr>"

definition newGraph :: Graph where
  "newGraph = \<lparr>gpos = (0, 0), grotation = 0, childItems = []\<rparr>"

section \<open>The canvas scene (canvasscene.cpp)\<close>

text \<open>
  The scene holds the Graph objects, each under its address.  A Node or an Edge that
  is in no Graph is not part of the scene: \<open>setParentItem(nullptr)\<close> followed by
  \<open>removeItem\<close> and \<open>delete\<close> removes the item from its Graph.  A function that
  dereferences a pointer to an object that is not in the scene has no defined result
  (\<open>None\<close>).  The pen style and the z-value of an item (\<open>chosen\<close>, \<open>setZValue\<close>),
  the derived geometry of an edge (\<open>Edge::adjust\<close>) and the pauses of the join
  animation (\<open>processEvents\<close>, \<open>msleep\<close>) are not modelled.
\<close>

datatype Signal = graphDropped | graphJoined | graphSeparated | somethingChanged

datatype ItemRef = NodeRef ident | EdgeRef ident

fun itemRef :: "Item \<Rightarrow> ItemRef" where
  "itemRef (NodeItem n) = NodeRef (nodeRef n)"
| "itemRef (EdgeItem e) = EdgeRef (edgeRef e)"

record CanvasScene =
  graphs :: "(ident \<times> Graph) list"
  canvasGraphList :: "ident list"
  connectNode1a :: "ident option"
  connectNode1b :: "ident option"
  connectNode2a :: "ident option"
  connectNode2b :: "ident option"
  emitted :: "Signal list"
  nextRef :: ident

subsection \<open>Pointers into the scene\<close>

fun findItem :: "ItemRef \<Rightarrow> Item list \<Rightarrow> Item option" where
  "findItem r [] = None"
| "findItem r (it # its) = (if itemRef it = r then Some it else findItem r its)"

text \<open>The Graph that owns an item: its address, the Graph and the item.\<close>

fun findOwner :: "ItemRef \<Rightarrow> (ident \<times> Graph) list \<Rightarrow> (ident \<times> Graph \<times> Item) option" where
  "findOwner r [] = None"
| "findOwner r ((g, G) # gs) =
     (case findItem r (childItems G) of
        Some it \<Rightarrow> Some (g, G, it)
      | None \<Rightarrow> findOwner r gs)"

definition getNode :: "CanvasScene \<Rightarrow> ident \<Rightarrow> Node option" where
  "getNode s r =
     (case findOwner (NodeRef r) (graphs s) of
        Some (g, G, NodeItem n) \<Rightarrow> Some n
      | _ \<Rightarrow> None)"

definition getEdge :: "CanvasScene \<Rightarrow> ident \<Rightarrow> Edge option" where
  "getEdge s r =
     (case findOwner (EdgeRef r) (graphs s) of
        Some (g, G, EdgeItem e) \<Rightarrow> Some e
      | _ \<Rightarrow> None)"

text \<open>All Nodes and Edges of the scene, Graph by Graph.\<close>

definition items :: "CanvasScene \<Rightarrow> Item list" where
  "items s = concat (map (\<lambda>(g, G). childItems G) (graphs s))"

definition getGraph :: "CanvasScene \<Rightarrow> ident \<Rightarrow> Graph option" where
  "getGraph s g = map_of (graphs s) g"

text \<open>\<open>item->parentItem()\<close> and \<open>item->scenePos()\<close>.\<close>

definition parentItem :: "CanvasScene \<Rightarrow> ItemRef \<Rightarrow> ident option" where
  "parentItem s r = map_option fst (findOwner r (graphs s))"

definition itemScenePos :: "CanvasScene \<Rightarrow> ItemRef \<Rightarrow> QPointF option" where
  "itemScenePos s r = map_option (\<lambda>(g, G, it). scenePos G it) (findOwner r (graphs s))"

subsection \<open>Assignments through pointers\<close>

definition mapItems :: "(Item \<Rightarrow> Item) \<Rightarrow> CanvasScene \<Rightarrow> CanvasScene" where
  "mapItems f s =
     s\<lparr>graphs := map (\<lambda>(g, G). (g, G\<lparr>childItems := map f (childItems G)\<rparr>)) (graphs s)\<rparr>"

fun onNode :: "ident \<Rightarrow> (Node \<Rightarrow> Node) \<Rightarrow> Item \<Rightarrow> Item" where
  "onNode r f (NodeItem n) = (if nodeRef n = r then NodeItem (f n) else NodeItem n)"
| "onNode r f (EdgeItem e) = EdgeItem e"

fun onEdge :: "ident \<Rightarrow> (Edge \<Rightarrow> Edge) \<Rightarrow> Item \<Rightarrow> Item" where
  "onEdge r f (NodeItem n) = NodeItem n"
| "onEdge r f (EdgeItem e) = (if edgeRef e = r then EdgeItem (f e) else EdgeItem e)"

definition updNode :: "ident \<Rightarrow> (Node \<Rightarrow> Node) \<Rightarrow> CanvasScene \<Rightarrow> CanvasScene" where
  "updNode r f s = mapItems (onNode r f) s"

definition updEdge :: "ident \<Rightarrow> (Edge \<Rightarrow> Edge) \<Rightarrow> CanvasScene \<Rightarrow> CanvasScene" where
  "updEdge r f s = mapItems (onEdge r f) s"

definition updGraph :: "ident \<Rightarrow> (Graph \<Rightarrow> Graph) \<Rightarrow> CanvasScene \<Rightarrow> CanvasScene" where
  "updGraph g f s =
     s\<lparr>graphs := map (\<lambda>(g', G). if g' = g then (g', f G) else (g', G)) (graphs s)\<rparr>"

text \<open>Taking an item out of its Graph, and adding a child to a Graph.\<close>

definition dropItem :: "ItemRef \<Rightarrow> CanvasScene \<Rightarrow> CanvasScene" where
  "dropItem r s =
     s\<lparr>graphs := map (\<lambda>(g, G). (g, G\<lparr>childItems := filter (\<lambda>it. itemRef it \<noteq> r) (childItems G)\<rparr>))
                       (graphs s)\<rparr>"

definition addChild :: "ident \<Rightarrow> Item \<Rightarrow> CanvasScene \<Rightarrow> CanvasScene" where
  "addChild g it s = updGraph g (\<lambda>G. G\<lparr>childItems := childItems G @ [it]\<rparr>) s"

text \<open>
  The body of the loops that move an item to another Graph:
  \<open>itemPos = item->scenePos(); item->setParentItem(graph); item->setPos(itemPos - offset);
  item->setRotation(0)\<close>.  \<open>setParentItem\<close> leaves an item that is already a child of
  the Graph where it is.
\<close>

definition moveItem :: "ident \<Rightarrow> QPointF \<Rightarrow> ItemRef \<Rightarrow> CanvasScene \<Rightarrow> CanvasScene option" where
  "moveItem newParent offset r s =
     (case findOwner r (graphs s) of
        None \<Rightarrow> None
      | Some (g, G, it) \<Rightarrow>
          (let itemPos = scenePos G it;
               f = (\<lambda>x. itemSetRotation 0 (itemSetPos (psub itemPos offset) x))
           in if g = newParent then Some (mapItems (\<lambda>x. if itemRef x = r then f x else x) s)
              else Some (addChild newParent (f it) (dropItem r s))))"

text \<open>A loop whose body may dereference an invalid pointer.\<close>

fun foldM :: "('a \<Rightarrow> 's \<Rightarrow> 's option) \<Rightarrow> 'a list \<Rightarrow> 's \<Rightarrow> 's option" where
  "foldM f [] s = Some s"
| "foldM f (x # xs) s = (case f x s of None \<Rightarrow> None | Some s' \<Rightarrow> foldM f xs s')"

text \<open>\<open>new Graph\<close> followed by \<open>addItem\<close>: the new Graph gets the next free address.\<close>

definition createGraph :: "CanvasScene \<Rightarrow> ident \<times> CanvasScene" where
  "createGraph s =
     (nextRef s, s\<lparr>graphs := graphs s @ [(nextRef s, newGraph)], nextRef := Suc (nextRef s)\<rparr>)"

text \<open>\<open>removeItem(root); canvasGraphList.removeOne(root); delete root\<close>.\<close>

definition disposeGraph :: "ident \<Rightarrow> CanvasScene \<Rightarrow> CanvasScene" where
  "disposeGraph g s =
     s\<lparr>graphs := filter (\<lambda>(g', G). g' \<noteq> g) (graphs s),
       canvasGraphList := remove1 g (canvasGraphList s)\<rparr>"

definition emit :: "Signal \<Rightarrow> CanvasScene \<Rightarrow> CanvasScene" where
  "emit sig s = s\<lparr>emitted := emitted s @ [sig]\<rparr>"

subsection \<open>The join: \<open>CanvasScene::keyReleaseEvent\<close>, key J\<close>

definition ANIMATION_STEPS :: nat where
  "ANIMATION_STEPS = 10"

text \<open>\<open>QGraphicsItem::moveBy\<close> on a Graph.\<close>

definition moveBy :: "real \<Rightarrow> real \<Rightarrow> Graph \<Rightarrow> Graph" where
  "moveBy dx dy g = g\<lparr>gpos := (fst (gpos g) + dx, snd (gpos g) + dy)\<rparr>"

text \<open>\<open>qAtan2(y, x)\<close> and \<open>qRadiansToDegrees\<close> over the reals.\<close>

definition qAtan2 :: "real \<Rightarrow> real \<Rightarrow> real" where
  "qAtan2 y x =
     (if 0 < x then arctan (y / x)
      else if x < 0 \<and> 0 \<le> y then arctan (y / x) + pi
      else if x < 0 then arctan (y / x) - pi
      else if 0 < y then pi / 2
      else if y < 0 then - pi / 2
      else 0)"

definition qRadiansToDegrees :: "real \<Rightarrow> real" where
  "qRadiansToDegrees r = r * (180 / pi)"

text \<open>
  Attaching an edge of the discarded node \<open>n2\<close> to the kept node \<open>n1\<close>:
  \<open>if (edge->sourceNode() == n2) edge->setSourceNode(n1); else edge->setDestNode(n1);
  n1->addEdge(edge)\<close>.
\<close>

definition rewire :: "ident \<Rightarrow> ident \<Rightarrow> ident \<Rightarrow> CanvasScene \<Rightarrow> CanvasScene option" where
  "rewire n2 n1 e s =
     do {
       ed \<leftarrow> getEdge s e;
       nd \<leftarrow> getNode s n1;
       let s1 = (if source ed = n2
                 then updEdge e (\<lambda>x. x\<lparr>source := n1, sourceRadius := getDiameter nd / 2\<rparr>) s
                 else updEdge e (\<lambda>x. x\<lparr>dest := n1, destRadius := getDiameter nd / 2\<rparr>) s);
       Some (updNode n1 (\<lambda>n. n\<lparr>edgeList := edgeList n @ [e]\<rparr>) s1)
     }"

text \<open>\<open>Node::removeEdge\<close>: the first occurrence of the edge leaves the list.\<close>

definition removeEdge :: "ident \<Rightarrow> ident \<Rightarrow> CanvasScene \<Rightarrow> CanvasScene option" where
  "removeEdge n e s =
     (case getNode s n of
        None \<Rightarrow> None
      | Some nd \<Rightarrow> Some (updNode n (\<lambda>x. x\<lparr>edgeList := remove1 e (edgeList x)\<rparr>) s))"

text \<open>
  The search for a second edge between \<open>n1a\<close> and \<open>n1b\<close> (four-node join): the loop
  over \<open>n1a->edges()\<close> remembers the first edge that has \<open>n1b\<close> as an end and deletes
  the second one, then stops.
\<close>

fun removeDuplicate :: "ident \<Rightarrow> ident \<Rightarrow> ident \<Rightarrow> ident \<Rightarrow> ident list \<Rightarrow> ident option
                          \<Rightarrow> CanvasScene \<Rightarrow> CanvasScene option" where
  "removeDuplicate n1a n1b n2a n2b [] existingEdge s = Some s"
| "removeDuplicate n1a n1b n2a n2b (e # es) existingEdge s =
     (case getEdge s e of
        None \<Rightarrow> None
      | Some ed \<Rightarrow>
          if source ed = n1b \<or> dest ed = n1b
          then (if existingEdge = None then removeDuplicate n1a n1b n2a n2b es (Some e) s
                else do {
                  s1 \<leftarrow> removeEdge n1a e s;
                  s2 \<leftarrow> removeEdge n1b e s1;
                  s3 \<leftarrow> removeEdge n2a e s2;
                  s4 \<leftarrow> removeEdge n2b e s3;
                  Some (dropItem (EdgeRef e) s4)
                })
          else removeDuplicate n1a n1b n2a n2b es existingEdge s)"

text \<open>
  The renumbering of the nodes of the new Graph, skipping the discarded nodes.
  \<open>number\<close> is \<open>QString::number\<close>.
\<close>

fun renumber :: "(int \<Rightarrow> string) \<Rightarrow> ident list \<Rightarrow> int \<Rightarrow> Item list \<Rightarrow> Item list" where
  "renumber number skip count [] = []"
| "renumber number skip count (NodeItem n # its) =
     (if nodeRef n \<notin> set skip
      then NodeItem (n\<lparr>nlabel := number count\<rparr>) # renumber number skip (count + 1) its
      else NodeItem n # renumber number skip count its)"
| "renumber number skip count (EdgeItem e # its) = EdgeItem e # renumber number skip count its"

text \<open>
  The part of both joins after the edges are attached: the children of \<open>root1\<close>, then
  those of \<open>root2\<close>, move to \<open>newRoot\<close>; the nodes are renumbered if the label of the
  first node selected is a number (\<open>isInt\<close> is the result flag of \<open>QString::toInt\<close>);
  \<open>newRoot\<close> is centred and entered in \<open>canvasGraphList\<close>; the discarded nodes and
  the old roots are deleted; \<open>graphJoined\<close> is emitted.
\<close>

definition finishJoin :: "(string \<Rightarrow> bool) \<Rightarrow> (int \<Rightarrow> string) \<Rightarrow> ident \<Rightarrow> ident \<Rightarrow> ident
                            \<Rightarrow> QPointF \<Rightarrow> ident \<Rightarrow> ident list \<Rightarrow> CanvasScene \<Rightarrow> CanvasScene option" where
  "finishJoin isInt number newRoot root1 root2 root1Pos n1a discarded s =
     do {
       r1 \<leftarrow> getGraph s root1;
       s1 \<leftarrow> foldM (moveItem newRoot root1Pos) (map itemRef (childItems r1)) s;
       r2 \<leftarrow> getGraph s1 root2;
       s2 \<leftarrow> foldM (moveItem newRoot root1Pos) (map itemRef (childItems r2)) s1;
       nd \<leftarrow> getNode s2 n1a;
       let s3 = (if isInt (nlabel nd)
                 then updGraph newRoot
                        (\<lambda>G. G\<lparr>childItems := renumber number discarded 0 (childItems G)\<rparr>) s2
                 else s2);
       let s4 = updGraph newRoot centerGraph s3;
       let s5 = s4\<lparr>canvasGraphList := canvasGraphList s4 @ [newRoot]\<rparr>;
       let s6 = fold (\<lambda>n. dropItem (NodeRef n)) discarded s5;
       let s7 = disposeGraph root1 s6;
       let s8 = disposeGraph root2 s7;
       Some (emit graphJoined s8)
     }"

definition twoNodeJoin :: "(string \<Rightarrow> bool) \<Rightarrow> (int \<Rightarrow> string) \<Rightarrow> ident \<Rightarrow> ident
                             \<Rightarrow> CanvasScene \<Rightarrow> CanvasScene option" where
  "twoNodeJoin isInt number n1 n2 s =
     do {
       p1 \<leftarrow> parentItem s (NodeRef n1);
       p2 \<leftarrow> parentItem s (NodeRef n2);
       if p1 \<noteq> p2
       then do {
         let (newRoot, s1) = createGraph s;
         let root1 = p1;
         r1 \<leftarrow> getGraph s1 root1;
         let root1Pos = gpos r1;
         let root2 = p2;
         let s2 = updGraph newRoot (\<lambda>G. G\<lparr>gpos := root1Pos\<rparr>) s1;
         c1 \<leftarrow> itemScenePos s2 (NodeRef n1);
         c2 \<leftarrow> itemScenePos s2 (NodeRef n2);
         let animate_x = fst (psub c1 c2) / real ANIMATION_STEPS;
         let animate_y = snd (psub c1 c2) / real ANIMATION_STEPS;
         let s3 = updGraph root2 (moveBy animate_x animate_y ^^ ANIMATION_STEPS) s2;
         nd2 \<leftarrow> getNode s3 n2;
         s4 \<leftarrow> foldM (rewire n2 n1) (edgeList nd2) s3;
         finishJoin isInt number newRoot root1 root2 root1Pos n1 [n2] s4
       }
       else Some s
     }"

definition fourNodeJoin :: "(string \<Rightarrow> bool) \<Rightarrow> (int \<Rightarrow> string) \<Rightarrow> ident \<Rightarrow> ident \<Rightarrow> ident \<Rightarrow> ident
                              \<Rightarrow> CanvasScene \<Rightarrow> CanvasScene option" where
  "fourNodeJoin isInt number n1a n1b n2a n2b s =
     do {
       p1a \<leftarrow> parentItem s (NodeRef n1a);
       p1b \<leftarrow> parentItem s (NodeRef n1b);
       p2a \<leftarrow> parentItem s (NodeRef n2a);
       p2b \<leftarrow> parentItem s (NodeRef n2b);
       if p1a \<noteq> p2a \<and> p1a \<noteq> p2b \<and> p1b \<noteq> p2a \<and> p1b \<noteq> p2b
       then do {
         let (newRoot, s1) = createGraph s;
         let root1 = p1a;
         r1 \<leftarrow> getGraph s1 root1;
         let root1Pos = gpos r1;
         let root2 = p2a;
         let s2 = updGraph newRoot (\<lambda>G. G\<lparr>gpos := root1Pos\<rparr>) s1;
         cn1a \<leftarrow> itemScenePos s2 (NodeRef n1a);
         cn1b \<leftarrow> itemScenePos s2 (NodeRef n1b);
         cn2a \<leftarrow> itemScenePos s2 (NodeRef n2a);
         cn2b \<leftarrow> itemScenePos s2 (NodeRef n2b);
         let angle1 = qAtan2 (snd cn1b - snd cn1a) (fst cn1b - fst cn1a);
         let angle2 = qAtan2 (snd cn2b - snd cn2a) (fst cn2b - fst cn2a);
         let angle = angle1 - angle2;
         let animate_angle = angle / real ANIMATION_STEPS;
         let s3 = updGraph root2
                    (setRotation (qRadiansToDegrees animate_angle) True ^^ ANIMATION_STEPS) s2;
         cn2a' \<leftarrow> itemScenePos s3 (NodeRef n2a);
         cn2b' \<leftarrow> itemScenePos s3 (NodeRef n2b);
         let midcn1X = (fst cn1a + fst cn1b) / 2;
         let midcn1Y = (snd cn1a + snd cn1b) / 2;
         let midcn2X = (fst cn2a' + fst cn2b') / 2;
         let midcn2Y = (snd cn2a' + snd cn2b') / 2;
         let deltaX = midcn1X - midcn2X;
         let deltaY = midcn1Y - midcn2Y;
         let animate_x = deltaX / real ANIMATION_STEPS;
         let animate_y = deltaY / real ANIMATION_STEPS;
         let s4 = updGraph root2 (moveBy animate_x animate_y ^^ ANIMATION_STEPS) s3;
         nd2a \<leftarrow> getNode s4 n2a;
         s5 \<leftarrow> foldM (rewire n2a n1a) (edgeList nd2a) s4;
         nd2b \<leftarrow> getNode s5 n2b;
         s6 \<leftarrow> foldM (rewire n2b n1b) (edgeList nd2b) s5;
         nd1a \<leftarrow> getNode s6 n1a;
         s7 \<leftarrow> removeDuplicate n1a n1b n2a n2b (edgeList nd1a) None s6;
         finishJoin isInt number newRoot root1 root2 root1Pos n1a [n2a, n2b] s7
       }
       else Some s
     }"

text \<open>
  Key J: the four-node join if all four nodes are selected, the two-node join if
  \<open>connectNode1a\<close> and \<open>connectNode2a\<close> are; then the selection is cleared.
\<close>

definition joinSelected :: "(string \<Rightarrow> bool) \<Rightarrow> (int \<Rightarrow> string) \<Rightarrow> CanvasScene \<Rightarrow> CanvasScene option" where
  "joinSelected isInt number s =
     (if connectNode1a s \<noteq> None \<and> connectNode2a s \<noteq> None
         \<and> connectNode1b s \<noteq> None \<and> connectNode2b s \<noteq> None
      then fourNodeJoin isInt number (the (connectNode1a s)) (the (connectNode1b s))
             (the (connectNode2a s)) (the (connectNode2b s)) s
      else if connectNode1a s \<noteq> None \<and> connectNode2a s \<noteq> None
      then twoNodeJoin isInt number (the (connectNode1a s)) (the (connectNode2a s)) s
      else Some s)"

definition keyReleaseEvent_J :: "(string \<Rightarrow> bool) \<Rightarrow> (int \<Rightarrow> string) \<Rightarrow> CanvasScene \<Rightarrow> CanvasScene option" where
  "keyReleaseEvent_J isInt number s =
     map_option
       (\<lambda>s'. s'\<lparr>connectNode1a := None, connectNode2a := None,
                 connectNode1b := None, connectNode2b := None\<rparr>)
       (joinSelected isInt number s)"


subsection \<open>The split: \<open>CanvasScene::searchAndSeparate\<close>\<close>

text \<open>
  The lists of the search: \<open>graphNodes\<close> (the nodes still to be visited),
  \<open>graphItems\<close> (the items found so far) and \<open>skipList\<close>, with the scene.
\<close>

record search =
  scene :: CanvasScene
  graphNodes :: "ident list"
  graphItems :: "ItemRef list"
  skipList :: "nat list"

text \<open>\<open>QList::indexOf\<close> of an element that is in the list.\<close>

definition indexOf :: "'a list \<Rightarrow> 'a \<Rightarrow> nat" where
  "indexOf xs x = length (takeWhile (\<lambda>y. y \<noteq> x) xs)"

text \<open>
  \<open>!graphNodes.contains(n) && n->checked == 0\<close>: the node is dereferenced only if the
  list does not contain it.
\<close>

definition unseen :: "search \<Rightarrow> ident \<Rightarrow> bool option" where
  "unseen st n =
     (if n \<in> set (graphNodes st) then Some False
      else map_option (\<lambda>nd. nchecked nd = 0) (getNode (scene st) n))"

definition enqueue :: "ident \<Rightarrow> search \<Rightarrow> search" where
  "enqueue n st =
     st\<lparr>graphNodes := graphNodes st @ [n],
        graphItems := (if NodeRef n \<in> set (graphItems st) then graphItems st
                       else graphItems st @ [NodeRef n])\<rparr>"

text \<open>The body of the loop over the edges of the node that is visited.\<close>

definition visitEdge :: "ident \<Rightarrow> search \<Rightarrow> search option" where
  "visitEdge e st =
     do {
       ed \<leftarrow> getEdge (scene st) e;
       d \<leftarrow> unseen st (dest ed);
       st1 \<leftarrow> (if d then Some (enqueue (dest ed) st)
               else do {
                 sn \<leftarrow> unseen st (source ed);
                 Some (if sn then enqueue (source ed) st else st)
               });
       let st2 = (if EdgeRef e \<in> set (graphItems st1) then st1
                  else st1\<lparr>graphItems := graphItems st1 @ [EdgeRef e]\<rparr>);
       Some (st2\<lparr>scene := updEdge e (\<lambda>x. x\<lparr>echecked := 1\<rparr>) (scene st2)\<rparr>)
     }"

text \<open>
  The body of \<open>for (Node * node : graphNodes)\<close>.  The inner \<open>while\<close> runs \<open>j\<close> from
  \<open>i + 1\<close> (the value \<open>j\<close> has whenever a node is visited) to the index of the last
  node of the list passed in.
\<close>

definition visitNode :: "ident list \<Rightarrow> nat \<Rightarrow> nat \<Rightarrow> ident \<Rightarrow> search \<Rightarrow> search option" where
  "visitNode Nodes lastIdx i node st =
     do {
       let st1 = st\<lparr>skipList := skipList st @ filter (\<lambda>j. Nodes ! j = node) [Suc i ..< Suc lastIdx]\<rparr>;
       nd \<leftarrow> getNode (scene st1) node;
       let st2 = st1\<lparr>scene := updNode node (\<lambda>x. x\<lparr>nchecked := 1\<rparr>) (scene st1)\<rparr>;
       st3 \<leftarrow> foldM visitEdge (edgeList nd) st2;
       Some (st3\<lparr>graphNodes := remove1 node (graphNodes st3)\<rparr>)
     }"

text \<open>
  \<open>while (!graphNodes.isEmpty()) for (Node * node : graphNodes) ...\<close>: a pass visits
  the nodes that are in the list when the pass starts; each of them is the head of the
  list when it is visited, because a visited node is removed and new nodes are appended.
\<close>

partial_function (option) traverse :: "ident list \<Rightarrow> nat \<Rightarrow> nat \<Rightarrow> search \<Rightarrow> search option" where
  "traverse Nodes lastIdx i st =
     (if graphNodes st = [] then Some st
      else Option.bind (foldM (visitNode Nodes lastIdx i) (graphNodes st) st)
             (traverse Nodes lastIdx i))"

text \<open>The new Graph for the items found, when a node of the list was not reached.\<close>

definition separate :: "ItemRef list \<Rightarrow> CanvasScene \<Rightarrow> CanvasScene option" where
  "separate found s =
     (let (graph, s1) = createGraph s;
          s2 = s1\<lparr>canvasGraphList := canvasGraphList s1 @ [graph]\<rparr>
      in foldM (moveItem graph (0, 0)) found s2)"

fun resetChecked :: "ItemRef \<Rightarrow> CanvasScene \<Rightarrow> CanvasScene" where
  "resetChecked (NodeRef n) s = updNode n (\<lambda>x. x\<lparr>nchecked := 0\<rparr>) s"
| "resetChecked (EdgeRef e) s = updEdge e (\<lambda>x. x\<lparr>echecked := 0\<rparr>) s"

text \<open>\<open>while (skipList.contains(i)) i++\<close>.\<close>

function advance :: "nat list \<Rightarrow> nat \<Rightarrow> nat" where
  "advance skip i = (if i \<in> set skip then advance skip (Suc i) else i)"
  by pat_completeness auto
termination
proof (relation "measure (\<lambda>(skip, i). Suc (Max (set skip)) - i)")
  show "wf (measure (\<lambda>(skip, i). Suc (Max (set skip)) - i))" by simp
next
  fix skip :: "nat list" and i :: nat
  assume "i \<in> set skip"
  then have "i \<le> Max (set skip)" by simp
  then show "((skip, Suc i), (skip, i)) \<in> measure (\<lambda>(skip, i). Suc (Max (set skip)) - i)"
    by simp
qed

declare advance.simps [simp del]

lemma advance_ge: "i \<le> advance skip i"
proof (induction skip i rule: advance.induct)
  case (1 skip i)
  show ?case
  proof (cases "i \<in> set skip")
    case True
    with 1 have "Suc i \<le> advance skip (Suc i)" by simp
    with True show ?thesis by (subst advance.simps) simp
  next
    case False
    then show ?thesis by (subst advance.simps) simp
  qed
qed

text \<open>
  One round of the outer loop for the node at index \<open>i\<close>: the search from the node,
  the new Graph if \<open>skipList.count() != Nodes.count() - i - 1\<close>, and the reset of the
  flags.  The round returns \<open>skipList\<close>, \<open>graphAdded\<close> and the scene.
\<close>

definition sasRound :: "ident list \<Rightarrow> nat \<Rightarrow> nat \<Rightarrow> bool \<Rightarrow> CanvasScene
                          \<Rightarrow> (nat list \<times> bool \<times> CanvasScene) option" where
  "sasRound Nodes lastIdx i graphAdded s =
     do {
       st \<leftarrow> traverse Nodes lastIdx i
              \<lparr>scene = s, graphNodes = [Nodes ! i], graphItems = [NodeRef (Nodes ! i)], skipList = []\<rparr>;
       (ga, s1) \<leftarrow> (if length (skipList st) \<noteq> length Nodes - i - 1
                     then map_option (Pair True) (separate (graphItems st) (scene st))
                     else Some (graphAdded, scene st));
       Some (skipList st, ga, fold resetChecked (graphItems st) s1)
     }"

text \<open>
  \<open>while (i < Nodes.indexOf(Nodes.last()))\<close>; after a round, \<open>i++\<close> and the indices in
  \<open>skipList\<close> are skipped.
\<close>

function sasLoop :: "ident list \<Rightarrow> nat \<Rightarrow> nat \<Rightarrow> bool \<Rightarrow> CanvasScene \<Rightarrow> (bool \<times> CanvasScene) option" where
  "sasLoop Nodes lastIdx i graphAdded s =
     (if i < lastIdx
      then (case sasRound Nodes lastIdx i graphAdded s of
              None \<Rightarrow> None
            | Some (skip, ga, s') \<Rightarrow> sasLoop Nodes lastIdx (advance skip (Suc i)) ga s')
      else Some (graphAdded, s))"
  by pat_completeness auto
termination
proof (relation "measure (\<lambda>(Nodes, lastIdx, i, graphAdded, s). lastIdx - i)")
  show "wf (measure (\<lambda>(Nodes, lastIdx, i, graphAdded, s). lastIdx - i))" by simp
next
  fix Nodes :: "ident list" and lastIdx i :: nat and graphAdded :: bool and s :: CanvasScene
    and r :: "nat list \<times> bool \<times> CanvasScene" and skip :: "nat list"
    and y :: "bool \<times> CanvasScene" and ga :: bool and s' :: CanvasScene
  assume "i < lastIdx"
  moreover have "Suc i \<le> advance skip (Suc i)" by (rule advance_ge)
  ultimately show "((Nodes, lastIdx, advance skip (Suc i), ga, s'), (Nodes, lastIdx, i, graphAdded, s))
      \<in> measure (\<lambda>(Nodes, lastIdx, i, graphAdded, s). lastIdx - i)"
    by simp
qed

declare sasLoop.simps [simp del]

text \<open>\<open>Nodes.last()\<close> of an empty list is not defined.\<close>

definition searchAndSeparate :: "ident list \<Rightarrow> CanvasScene \<Rightarrow> CanvasScene option" where
  "searchAndSeparate Nodes s =
     (if Nodes = [] then None
      else map_option (\<lambda>(graphAdded, s'). if graphAdded then emit graphSeparated s' else s')
             (sasLoop Nodes (indexOf Nodes (last Nodes)) 0 False s))"

section \<open>Observations and example scenes\<close>



definition sceneContents :: "CanvasScene \<Rightarrow> (ident \<times> ItemRef list) list" where
  "sceneContents s = map (\<lambda>(g, G). (g, map itemRef (childItems G))) (graphs s)"

definition edgeEnds :: "Edge \<Rightarrow> ident \<times> ident set" where
  "edgeEnds e = (edgeRef e, {source e, dest e})"

text \<open>
  Scenes for the join and the split.  The addresses are fixed: nodes 2 to 5, edges 6 and
  7, graphs 8 and 9; everything else about the graphs, nodes and edges (positions,
  rotations, diameters, labels) and the direction of each edge is a parameter.
\<close>

definition wire :: "bool \<Rightarrow> ident \<Rightarrow> ident \<Rightarrow> ident \<Rightarrow> Edge \<Rightarrow> Edge" where
  "wire flipped r a b e =
     e\<lparr>edgeRef := r, source := (if flipped then b else a), dest := (if flipped then a else b),
       echecked := 0\<rparr>"

definition place :: "ident \<Rightarrow> ident list \<Rightarrow> Node \<Rightarrow> Node" where
  "place r es n = n\<lparr>nodeRef := r, edgeList := es, nchecked := 0\<rparr>"

text \<open>Graph 8 is the path 2 - 3 (edge 6), graph 9 the path 4 - 5 (edge 7).\<close>

definition twoPaths :: "Graph \<Rightarrow> Graph \<Rightarrow> Node \<Rightarrow> Node \<Rightarrow> Node \<Rightarrow> Node \<Rightarrow> Edge \<Rightarrow> Edge
                          \<Rightarrow> bool \<Rightarrow> bool \<Rightarrow> CanvasScene" where
  "twoPaths A B x1 x2 y1 y2 e1 e2 f1 f2 =
     \<lparr>graphs =
        [(8, A\<lparr>childItems := [NodeItem (place 2 [6] x1), NodeItem (place 3 [6] x2),
                               EdgeItem (wire f1 6 2 3 e1)]\<rparr>),
         (9, B\<lparr>childItems := [NodeItem (place 4 [7] y1), NodeItem (place 5 [7] y2),
                               EdgeItem (wire f2 7 4 5 e2)]\<rparr>)],
      canvasGraphList = [8, 9],
      connectNode1a = None, connectNode1b = None,
      connectNode2a = None, connectNode2b = None,
      emitted = [], nextRef = 10\<rparr>"

text \<open>Graph 8 holds the nodes 2, 3, 4 and 5 and the edges 2 - 3 (6) and 4 - 5 (7).\<close>

definition twoComponents :: "Graph \<Rightarrow> Node \<Rightarrow> Node \<Rightarrow> Node \<Rightarrow> Node \<Rightarrow> Edge \<Rightarrow> Edge
                          \<Rightarrow> bool \<Rightarrow> bool \<Rightarrow> CanvasScene" where
  "twoComponents G a b c d ab cd f1 f2 =
     \<lparr>graphs =
        [(8, G\<lparr>childItems := [NodeItem (place 2 [6] a), NodeItem (place 3 [6] b),
                               NodeItem (place 4 [7] c), NodeItem (place 5 [7] d),
                               EdgeItem (wire f1 6 2 3 ab), EdgeItem (wire f2 7 4 5 cd)]\<rparr>)],
      canvasGraphList = [8],
      connectNode1a = None, connectNode1b = None,
      connectNode2a = None, connectNode2b = None,
      emitted = [], nextRef = 9\<rparr>"

text \<open>What a no-op leaves as it is.\<close>

definition observe :: "CanvasScene \<Rightarrow> (ident \<times> ItemRef list) list \<times> Signal list" where
  "observe s = (sceneContents s, emitted s)"

definition sameScene :: "CanvasScene \<Rightarrow> CanvasScene \<Rightarrow> bool" where
  "sameScene s s' =
     (graphs s' = graphs s \<and> canvasGraphList s' = canvasGraphList s
      \<and> emitted s' = emitted s \<and> nextRef s' = nextRef s)"

text \<open>Concrete scenes.\<close>

definition plainNode :: "QPointF \<Rightarrow> Node" where
  "plainNode p = (newNode 0 1)\<lparr>npos := p\<rparr>"

definition plainEdge :: Edge where
  "plainEdge = \<lparr>edgeRef = 0, epos = (0, 0), erotation = 0, source = 0, dest = 0,
                 sourceRadius = 1 / 2, destRadius = 1 / 2, echecked = 0\<rparr>"

definition joinExample :: CanvasScene where
  "joinExample =
     twoPaths newGraph (newGraph\<lparr>gpos := (5, 0)\<rparr>)
       (plainNode (0, 0)) (plainNode (1, 0)) (plainNode (0, 0)) (plainNode (1, 0))
       plainEdge plainEdge False False"

definition splitExample :: CanvasScene where
  "splitExample =
     twoComponents newGraph
       (plainNode (0, 0)) (plainNode (1, 0)) (plainNode (0, 2)) (plainNode (1, 2))
       plainEdge plainEdge False False"

text \<open>Two anchors in the same Graph; four anchors that are not in distinct Graphs.\<close>

definition sameContainerPair :: CanvasScene where
  "sameContainerPair = joinExample\<lparr>connectNode1a := Some 2, connectNode2a := Some 3\<rparr>"

definition sharedContainerFour :: CanvasScene where
  "sharedContainerFour =
     joinExample\<lparr>connectNode1a := Some 2, connectNode1b := Some 3,
                   connectNode2a := Some 3, connectNode2b := Some 2\<rparr>"

text \<open>The first pair of anchors is the same node twice.\<close>

definition sameAnchorTwice :: CanvasScene where
  "sameAnchorTwice =
     joinExample\<lparr>connectNode1a := Some 3, connectNode1b := Some 3,
                   connectNode2a := Some 4, connectNode2b := Some 5\<rparr>"


section \<open>Example graphs\<close>

text \<open>A node of the given address, position and diameter (in pixels, at one dot per inch).\<close>

definition nodeAt :: "ident \<Rightarrow> QPointF \<Rightarrow> real \<Rightarrow> Item" where
  "nodeAt ref p diam = NodeItem ((newNode ref 1)\<lparr>npos := p, nodeDiameter := diam\<rparr>)"


text \<open>A graph rotated by 180 degrees, with nodes at (0, 0) and (2, 0).\<close>

definition graph_turned :: Graph where
  "graph_turned = newGraph\<lparr>grotation := 180, childItems := [nodeAt 1 (0, 0) 1, nodeAt 2 (2, 0) 1]\<rparr>"

text \<open>A node of radius 1 at (0, 0) followed by a node of radius 5 at (1, 0).\<close>

definition graph_radii :: Graph where
  "graph_radii = newGraph\<lparr>childItems := [nodeAt 1 (0, 0) 2, nodeAt 2 (1, 0) 10]\<rparr>"

text \<open>Nodes at (0, 0) with radius 1 and at (10, 0) with radius 2.\<close>

definition graph_spec_example :: Graph where
  "graph_spec_example = newGraph\<lparr>childItems := [nodeAt 1 (0, 0) 2, nodeAt 2 (10, 0) 4]\<rparr>"

text \<open>Two nodes at x = 2^17 and at the next double, and the graph after one call and after
  two calls of \<open>centerGraph\<close>.\<close>

definition graph_far :: Graph where
  "graph_far = newGraph\<lparr>childItems := [nodeAt 1 (2 ^ 17, 0) 1, nodeAt 2 (2 ^ 17 + 1 / 2 ^ 35, 0) 1]\<rparr>"




section \<open>Properties of the bounding box, the rotation and the centring\<close>










lemma bbox_fold_no_nodes:
  "nodeChildren its = [] \<Longrightarrow> fold (bbox_item d u g) its b = b"
proof (induction its)
  case Nil
  then show ?case by simp
next
  case (Cons it its)
  then show ?case by (cases it) simp_all
qed

subsection \<open>Double arithmetic\<close>

lemma rne_error: "\<bar>of_int (rne y) - y\<bar> \<le> 1 / 2"
  unfolding rne_def Let_def by (auto simp: abs_if) linarith+

lemma rne_int: "rne (of_int m) = m"
  by (simp add: rne_def)


lemma binade_bounds:
  assumes "x \<noteq> 0"
  shows "2 powr of_int (binade x) \<le> \<bar>x\<bar>" "\<bar>x\<bar> < 2 powr of_int (binade x + 1)"
proof -
  have p: "0 < \<bar>x\<bar>" using assms by simp
  have "of_int (binade x) \<le> log 2 \<bar>x\<bar>" by (simp add: binade_def)
  then show "2 powr of_int (binade x) \<le> \<bar>x\<bar>" using p by (simp add: powr_le_iff)
  have "log 2 \<bar>x\<bar> < of_int (binade x + 1)" by (simp add: binade_def)
  then show "\<bar>x\<bar> < 2 powr of_int (binade x + 1)" using p by (simp add: less_powr_iff)
qed

lemma binade_eq:
  assumes "2 powr of_int n \<le> \<bar>x\<bar>" "\<bar>x\<bar> < 2 powr of_int (n + 1)"
  shows "binade x = n"
proof -
  have p: "0 < \<bar>x\<bar>" using assms(1) powr_gt_zero [of 2 "of_int n"] by linarith
  have "of_int n \<le> log 2 \<bar>x\<bar>" using assms(1) p by (simp add: powr_le_iff)
  moreover have "log 2 \<bar>x\<bar> < of_int n + 1" using assms(2) p by (simp add: less_powr_iff)
  ultimately show ?thesis unfolding binade_def by (simp add: floor_eq_iff)
qed

lemma powr_shift: "(2::real) powr of_int (a + b) = 2 powr of_int a * 2 powr of_int b"
  by (simp add: powr_add)

text \<open>The relative error of a rounding is at most \<open>2\<^sup>-\<^sup>5\<^sup>3\<close>.\<close>

lemma double_error: "\<bar>double x - x\<bar> \<le> \<bar>x\<bar> / 2 ^ 53"
proof (cases "x = 0")
  case True
  then show ?thesis by (simp add: double_def)
next
  case False
  define q :: real where "q = 2 powr of_int (binade x - 52)"
  have q0: "0 < q" by (simp add: q_def)
  have d: "double x = of_int (rne (x / q)) * q" using False by (simp add: double_def q_def)
  have "double x - x = (of_int (rne (x / q)) - x / q) * q"
    using q0 by (simp add: d algebra_simps)
  then have "\<bar>double x - x\<bar> = \<bar>of_int (rne (x / q)) - x / q\<bar> * q"
    using q0 by (simp add: abs_mult)
  also have "\<dots> \<le> 1 / 2 * q" using rne_error [of "x / q"] q0 by (intro mult_right_mono) simp_all
  also have "\<dots> = 2 powr of_int (binade x) / 2 ^ 53"
  proof -
    have "q = 2 powr of_int (binade x) * 2 powr of_int (- 52)"
      unfolding q_def using powr_shift [of "binade x" "- 52"] by simp
    also have "2 powr of_int (- 52) = (1 / 2 ^ 52 :: real)"
      by (simp add: powr_minus_divide)
    finally show ?thesis by simp
  qed
  also have "\<dots> \<le> \<bar>x\<bar> / 2 ^ 53"
    using binade_bounds(1) [OF False] by (simp add: divide_right_mono)
  finally show ?thesis .
qed

text \<open>A number with a mantissa of at most 53 bits is not rounded.\<close>

lemma binade_scale:
  assumes "x \<noteq> 0"
  shows "binade (x * 2 powr of_int k) = binade x + k"
proof -
  have "log 2 \<bar>x * 2 powr of_int k\<bar> = log 2 \<bar>x\<bar> + of_int k"
    using assms by (simp add: abs_mult log_mult)
  then show ?thesis by (simp add: binade_def)
qed

lemma binade_int:
  assumes "m \<noteq> 0" "\<bar>m\<bar> < 2 ^ 53"
  shows "0 \<le> binade (of_int m)" "binade (of_int m) \<le> 52"
proof -
  have m1: "1 \<le> \<bar>(of_int m :: real)\<bar>" using assms(1) by (simp flip: of_int_abs)
  then have "0 \<le> log 2 \<bar>(of_int m :: real)\<bar>" by simp
  then show "0 \<le> binade (of_int m)" by (simp add: binade_def)
  have "\<bar>(of_int m :: real)\<bar> < 2 ^ 53" using assms(2) by (simp flip: of_int_abs)
  then have "\<bar>(of_int m :: real)\<bar> < 2 powr 53" by simp
  then have "log 2 \<bar>(of_int m :: real)\<bar> < 53" using m1 by (simp add: log_less_iff)
  then have "\<lfloor>log 2 \<bar>(of_int m :: real)\<bar>\<rfloor> < 53" by (simp add: floor_less_iff)
  then show "binade (of_int m) \<le> 52" by (simp add: binade_def)
qed

lemma double_exact:
  assumes "\<bar>m\<bar> < 2 ^ 53"
  shows "double (of_int m * 2 powr of_int k) = of_int m * 2 powr of_int k"
proof (cases "m = 0")
  case True
  then show ?thesis by (simp add: double_def)
next
  case False
  define x :: real where "x = of_int m * 2 powr of_int k"
  have x0: "x \<noteq> 0" using False by (simp add: x_def)
  define j where "j = binade (of_int m)"
  have j: "0 \<le> j" "j \<le> 52" using binade_int [OF False assms] by (simp_all add: j_def)
  have b: "binade x = j + k"
    unfolding x_def j_def using False by (intro binade_scale) simp
  define q :: real where "q = 2 powr of_int (binade x - 52)"
  have q0: "0 < q" by (simp add: q_def)
  have qe: "q = 2 powr of_int (j + k - 52)" unfolding q_def b ..
  have "x / q = of_int m * (2 powr of_int k / 2 powr of_int (j + k - 52))"
    unfolding qe x_def by simp
  also have "2 powr of_int k / 2 powr of_int (j + k - 52) = (2 powr of_int (52 - j) :: real)"
    by (simp add: powr_diff [symmetric])
  also have "(2 powr of_int (52 - j) :: real) = of_int (2 ^ nat (52 - j))"
  proof -
    have "(2 powr of_int (52 - j) :: real) = 2 powr real (nat (52 - j))" using j(2) by simp
    also have "\<dots> = 2 ^ nat (52 - j)" by (simp add: powr_realpow)
    finally show ?thesis by simp
  qed
  finally have "x / q = of_int (m * 2 ^ nat (52 - j))" by simp
  then have "rne (x / q) = m * 2 ^ nat (52 - j)" by (simp only: rne_int)
  then have "of_int (rne (x / q)) * q = x / q * q"
    using \<open>x / q = of_int (m * 2 ^ nat (52 - j))\<close> by simp
  also have "\<dots> = x" using q0 by simp
  finally have "double x = x" using x0 by (simp add: double_def q_def)
  then show ?thesis by (simp add: x_def)
qed


text \<open>The rounding of a number whose binade is known.\<close>

lemma double_at:
  assumes "2 powr of_int n \<le> \<bar>x\<bar>" "\<bar>x\<bar> < 2 powr of_int (n + 1)"
  shows "double x = of_int (rne (x / 2 powr of_int (n - 52))) * 2 powr of_int (n - 52)"
proof -
  have "x \<noteq> 0" using assms(1) powr_gt_zero [of 2 "of_int n"] by auto
  then show ?thesis by (simp add: double_def binade_eq [OF assms])
qed

lemma double_0: "double 0 = 0"
  by (simp add: double_def)

lemma double_pow2: "double (2 ^ k) = 2 ^ k" "double (1 / 2 ^ k) = 1 / 2 ^ k" "double (- (1 / 2 ^ k)) = - (1 / 2 ^ k)"
proof -
  have "(2 ^ k :: real) = of_int 1 * 2 powr of_int (int k)" by (simp add: powr_realpow)
  then show "double (2 ^ k) = 2 ^ k" using double_exact [of 1 "int k"] by simp
  have e: "(1 / 2 ^ k :: real) = of_int 1 * 2 powr of_int (- int k)"
    by (simp add: powr_minus_divide powr_realpow)
  then show "double (1 / 2 ^ k) = 1 / 2 ^ k" using double_exact [of 1 "- int k"] by simp
  have "(- (1 / 2 ^ k) :: real) = of_int (- 1) * 2 powr of_int (- int k)"
    by (simp add: powr_minus_divide powr_realpow)
  then show "double (- (1 / 2 ^ k)) = - (1 / 2 ^ k)" using double_exact [of "- 1" "- int k"] by simp
qed

text \<open>Two roundings to even.\<close>

lemma double_tie_sum: "double (2 ^ 18 + 1 / 2 ^ 35) = 2 ^ 18"
proof -
  have "double (2 ^ 18 + 1 / 2 ^ 35) = of_int (rne ((2 ^ 18 + 1 / 2 ^ 35) / 2 powr of_int (18 - 52))) * 2 powr of_int (18 - 52)"
    by (rule double_at) simp_all
  also have "(2 powr of_int (18 - 52) :: real) = 1 / 2 ^ 34" by (simp add: powr_minus_divide)
  also have "rne ((2 ^ 18 + 1 / 2 ^ 35) / (1 / 2 ^ 34)) = 2 ^ 52"
    by (simp add: rne_def Let_def)
  finally show ?thesis by simp
qed

lemma double_tie_pos: "double (2 ^ 17 + 1 / 2 ^ 36) = 2 ^ 17"
proof -
  have "double (2 ^ 17 + 1 / 2 ^ 36) = of_int (rne ((2 ^ 17 + 1 / 2 ^ 36) / 2 powr of_int (17 - 52))) * 2 powr of_int (17 - 52)"
    by (rule double_at) simp_all
  also have "(2 powr of_int (17 - 52) :: real) = 1 / 2 ^ 35" by (simp add: powr_minus_divide)
  also have "rne ((2 ^ 17 + 1 / 2 ^ 36) / (1 / 2 ^ 35)) = 2 ^ 52"
    by (simp add: rne_def Let_def)
  finally show ?thesis by simp
qed

subsection \<open>Centring in double arithmetic\<close>



lemma RGcenterD_no_nodes:
  assumes "nodeChildren (childItems g) = []"
  shows "RGcenterD g = (0, 0)"
  using bbox_fold_no_nodes [OF assms, of 0 False g bbox_init]
  by (simp add: RGcenterD_def bbox_loop_def Let_def bbox_init_def double_0)




lemma setPos_cases: "setPos same old new = old \<or> setPos same old new = new"
  by (simp add: setPos_def)




lemma double_values:
  "double (9007199254740993 / 34359738368) = 262144"
  "double (9007199254740993 / 68719476736) = 131072"
  "double 131072 = 131072"
  "double (1 / 34359738368) = 1 / 34359738368"
  "double (1 / 68719476736) = 1 / 68719476736"
  "double (- (1 / 68719476736)) = - (1 / 68719476736)"
proof -
  have "(9007199254740993 / 34359738368 :: real) = 2 ^ 18 + 1 / 2 ^ 35" by simp
  then show "double (9007199254740993 / 34359738368) = 262144" using double_tie_sum by simp
  have "(9007199254740993 / 68719476736 :: real) = 2 ^ 17 + 1 / 2 ^ 36" by simp
  then show "double (9007199254740993 / 68719476736) = 131072" using double_tie_pos by simp
  show "double 131072 = 131072" using double_pow2(1) [of 17] by simp
  show "double (1 / 34359738368) = 1 / 34359738368" using double_pow2(2) [of 35] by simp
  show "double (1 / 68719476736) = 1 / 68719476736" using double_pow2(2) [of 36] by simp
  show "double (- (1 / 68719476736)) = - (1 / 68719476736)" using double_pow2(3) [of 36] by simp
qed

lemmas far_defs = centerGraphD_def RGcenterD_def graph_far_def newGraph_def nodeAt_def newNode_def
      bbox_loop_def bbox_init_def Let_def setPos_def qFuzzyIsNull_def qFuzzyCompare_def
      double_values double_0





















text \<open>
  Claim C6.  After \<open>setRotation(amount, relative)\<close> the rotation of the graph is the
  previous rotation plus \<open>amount\<close> when \<open>relative\<close> is true and \<open>amount\<close> otherwise, and
  the rotation of every child, Node or Edge, is the negation of the new rotation.
\<close>

theorem setRotation_postcondition:
  "grotation (setRotation amount True g) = grotation g + amount
   \<and> grotation (setRotation amount False g) = amount
   \<and> map itemRotation (childItems (setRotation amount relative g))
       = replicate (length (childItems g)) (- grotation (setRotation amount relative g))"
proof -
  have r: "itemRotation (itemSetRotation a it) = a" for a it
    by (cases it) simp_all
  show ?thesis
    by (simp add: setRotation_def Let_def comp_def r map_replicate_const)
qed

text \<open>
  Claim C4 at a graph rotated by 180 degrees with nodes at (0, 0) and (2, 0): the scene
  positions of the nodes are (0, 0) and (-2, 0) before \<open>centerGraph\<close> and (2, 0) and
  (0, 0) after it.  The centre (1, 0) is added to the position of the graph without
  being rotated.
\<close>

theorem centerGraph_moves_rotated_graph:
  "map (scenePos graph_turned) (childItems graph_turned) = [(0, 0), (-2, 0)]
   \<and> map (scenePos (centerGraph graph_turned)) (childItems (centerGraph graph_turned))
       = [(2, 0), (0, 0)]"
  by (simp add: graph_turned_def newGraph_def nodeAt_def newNode_def centerGraph_def boundingBox_def
      bbox_loop_def bbox_init_def Let_def scenePos_def mapToScene_def toParent_def psub_def padd_def)

text \<open>
  Claim C10 at a node of radius 1 at (0, 0) followed by a node of radius 5 at (1, 0):
  the second node raises the maximum to 6, and the \<open>else if\<close> then skips the minimum,
  which stays at -1 although the node reaches to -4 (and to -5 in y).
\<close>

theorem boundingBox_radii_misses_minimum:
  "map (scenePos graph_radii) (childItems graph_radii) = [(0, 0), (1, 0)]
   \<and> map (\<lambda>n. getDiameter n / 2 * 1) (nodeChildren (childItems graph_radii)) = [1, 5]
   \<and> xRange (fst (boundingBox 1 graph_radii True)) = (-1, 6)
   \<and> yRange (fst (boundingBox 1 graph_radii True)) = (-1, 5)"
  by (simp add: graph_radii_def newGraph_def nodeAt_def newNode_def boundingBox_def
      bbox_loop_def bbox_init_def Let_def scenePos_def mapToScene_def toParent_def getDiameter_def
      xRange_def yRange_def)

text \<open>The example of the specification: the x-range is [-1, 12].\<close>

lemma boundingBox_spec_example:
  "xRange (fst (boundingBox 1 graph_spec_example True)) = (-1, 12)"
  by (simp add: graph_spec_example_def newGraph_def nodeAt_def newNode_def boundingBox_def
      bbox_loop_def bbox_init_def Let_def scenePos_def mapToScene_def toParent_def getDiameter_def
      xRange_def yRange_def)

section \<open>Properties of the scene\<close>

subsection \<open>Lookups and assignments\<close>

lemma findItem_append:
  "findItem r (xs @ ys) = (case findItem r xs of Some it \<Rightarrow> Some it | None \<Rightarrow> findItem r ys)"
  by (induction xs) simp_all

lemma findOwner_items:
  "map_option (\<lambda>(g, G, it). it) (findOwner r gs) = findItem r (concat (map (\<lambda>(g, G). childItems G) gs))"
proof (induction gs)
  case Nil
  then show ?case by simp
next
  case (Cons a gs)
  obtain g G where a: "a = (g, G)" by (cases a)
  show ?case using Cons unfolding a
    by (simp add: findItem_append split: option.splits)
qed

lemma findItem_NodeRef:
  "findItem (NodeRef r) its = map_option NodeItem (find (\<lambda>n. nodeRef n = r) (nodeChildren its))"
proof (induction its)
  case Nil
  then show ?case by simp
next
  case (Cons it its)
  then show ?case by (cases it) simp_all
qed


lemma getNode_find: "getNode s r = find (\<lambda>n. nodeRef n = r) (nodeChildren (items s))"
proof -
  have h: "map_option (\<lambda>(g, G, it). it) (findOwner (NodeRef r) (graphs s))
      = map_option NodeItem (find (\<lambda>n. nodeRef n = r) (nodeChildren (items s)))"
    by (simp add: findOwner_items findItem_NodeRef items_def)
  show ?thesis
  proof (cases "findOwner (NodeRef r) (graphs s)")
    case None
    with h show ?thesis by (simp add: getNode_def)
  next
    case (Some t)
    obtain g G it where t: "t = (g, G, it)" by (cases t)
    from h Some t have "Some it = map_option NodeItem (find (\<lambda>n. nodeRef n = r) (nodeChildren (items s)))"
      by simp
    then obtain n where "find (\<lambda>n. nodeRef n = r) (nodeChildren (items s)) = Some n" "it = NodeItem n"
      by (cases "find (\<lambda>n. nodeRef n = r) (nodeChildren (items s))") auto
    then show ?thesis using Some t by (simp add: getNode_def)
  qed
qed


lemma nodeChildren_append: "nodeChildren (xs @ ys) = nodeChildren xs @ nodeChildren ys"
proof (induction xs)
  case Nil
  then show ?case by simp
next
  case (Cons it xs)
  then show ?case by (cases it) simp_all
qed

lemma edgeChildren_append: "edgeChildren (xs @ ys) = edgeChildren xs @ edgeChildren ys"
proof (induction xs)
  case Nil
  then show ?case by simp
next
  case (Cons it xs)
  then show ?case by (cases it) simp_all
qed

lemma items_mapItems: "items (mapItems f s) = map f (items s)"
  by (simp add: items_def mapItems_def map_concat comp_def case_prod_unfold)



lemma nodeChildren_onEdge: "nodeChildren (map (onEdge r f) its) = nodeChildren its"
proof (induction its)
  case Nil
  then show ?case by simp
next
  case (Cons it its)
  then show ?case by (cases it) simp_all
qed

lemma edgeChildren_onEdge:
  "edgeChildren (map (onEdge r f) its) = map (\<lambda>e. if edgeRef e = r then f e else e) (edgeChildren its)"
proof (induction its)
  case Nil
  then show ?case by simp
next
  case (Cons it its)
  then show ?case by (cases it) simp_all
qed



lemma nodes_updEdge: "nodeChildren (items (updEdge r f s)) = nodeChildren (items s)"
  by (simp add: updEdge_def items_mapItems nodeChildren_onEdge)

lemma edges_updEdge:
  "edgeChildren (items (updEdge r f s)) = map (\<lambda>e. if edgeRef e = r then f e else e) (edgeChildren (items s))"
  by (simp add: updEdge_def items_mapItems edgeChildren_onEdge)

lemma items_dropItem: "items (dropItem r s) = filter (\<lambda>it. itemRef it \<noteq> r) (items s)"
  by (simp add: items_def dropItem_def filter_concat comp_def case_prod_unfold)

lemma nodeChildren_filter_edge:
  "nodeChildren (filter (\<lambda>it. itemRef it \<noteq> EdgeRef e) its) = nodeChildren its"
proof (induction its)
  case Nil
  then show ?case by simp
next
  case (Cons it its)
  then show ?case by (cases it) simp_all
qed


lemma nodeChildren_filter_node:
  "nodeChildren (filter (\<lambda>it. itemRef it \<noteq> NodeRef n) its) = filter (\<lambda>x. nodeRef x \<noteq> n) (nodeChildren its)"
proof (induction its)
  case Nil
  then show ?case by simp
next
  case (Cons it its)
  then show ?case by (cases it) simp_all
qed

lemma edgeChildren_filter_node:
  "edgeChildren (filter (\<lambda>it. itemRef it \<noteq> NodeRef n) its) = edgeChildren its"
proof (induction its)
  case Nil
  then show ?case by simp
next
  case (Cons it its)
  then show ?case by (cases it) simp_all
qed





lemma getNode_updEdge: "getNode (updEdge e f s) n = getNode s n"
  by (simp add: getNode_find nodes_updEdge)


lemma getNode_dropEdge: "getNode (dropItem (EdgeRef e) s) n = getNode s n"
  by (simp add: getNode_find items_dropItem nodeChildren_filter_edge)

subsection \<open>The duplicate search\<close>







subsection \<open>Unfolding the loops\<close>

lemma traverse_done: "graphNodes st = [] \<Longrightarrow> traverse Nodes lastIdx i st = Some st"
  by (subst traverse.simps) simp

lemma traverse_pass: "graphNodes st \<noteq> [] \<Longrightarrow> traverse Nodes lastIdx i st =
   Option.bind (foldM (visitNode Nodes lastIdx i) (graphNodes st) st) (traverse Nodes lastIdx i)"
  by (subst traverse.simps) simp

lemma advance_in: "i \<in> set skip \<Longrightarrow> advance skip i = advance skip (Suc i)"
  by (subst advance.simps) simp

lemma advance_out: "i \<notin> set skip \<Longrightarrow> advance skip i = i"
  by (subst advance.simps) simp

lemma sasLoop_end: "\<not> i < lastIdx \<Longrightarrow> sasLoop Nodes lastIdx i graphAdded s = Some (graphAdded, s)"
  by (subst sasLoop.simps) simp

lemma sasLoop_round: "i < lastIdx \<Longrightarrow> sasLoop Nodes lastIdx i graphAdded s =
     (case sasRound Nodes lastIdx i graphAdded s of
              None \<Rightarrow> None
            | Some (skip, ga, s') \<Rightarrow> sasLoop Nodes lastIdx (advance skip (Suc i)) ga s')"
  by (subst sasLoop.simps) simp

lemma scenePos_toParent: "scenePos G it = toParent (gpos G) (grotation G) (itemPos it)"
  by (simp add: scenePos_def mapToScene_def)

lemma funpow_moveBy:
  "(moveBy dx dy ^^ k) g = g\<lparr>gpos := (fst (gpos g) + real k * dx, snd (gpos g) + real k * dy)\<rparr>"
  by (induction k arbitrary: g) (simp_all add: moveBy_def algebra_simps)

lemma itemSetRotation_twice: "itemSetRotation a (itemSetRotation b it) = itemSetRotation a it"
  by (cases it) simp_all

lemma funpow_setRotation:
  "(setRotation a True ^^ Suc k) g =
     g\<lparr>childItems := map (itemSetRotation (- (grotation g + real (Suc k) * a))) (childItems g),
       grotation := grotation g + real (Suc k) * a\<rparr>"
proof (induction k)
  case 0
  then show ?case by (simp add: setRotation_def)
next
  case (Suc k)
  have "(setRotation a True ^^ Suc (Suc k)) g = setRotation a True ((setRotation a True ^^ Suc k) g)"
    by simp
  also have "\<dots> = g\<lparr>childItems := map (itemSetRotation (- (grotation g + real (Suc (Suc k)) * a))) (childItems g),
       grotation := grotation g + real (Suc (Suc k)) * a\<rparr>"
    unfolding Suc by (simp add: setRotation_def comp_def itemSetRotation_twice algebra_simps)
  finally show ?case .
qed

lemma animate_setRotation:
  "(setRotation a True ^^ ANIMATION_STEPS) g =
     g\<lparr>childItems := map (itemSetRotation (- (grotation g + 10 * a))) (childItems g),
       grotation := grotation g + 10 * a\<rparr>"
proof -
  have "(setRotation a True ^^ ANIMATION_STEPS) g = (setRotation a True ^^ Suc 9) g"
    by (simp add: ANIMATION_STEPS_def)
  also have "\<dots> = g\<lparr>childItems := map (itemSetRotation (- (grotation g + real (Suc 9) * a))) (childItems g),
       grotation := grotation g + real (Suc 9) * a\<rparr>"
    by (rule funpow_setRotation)
  also have "real (Suc 9) = 10" by simp
  finally show ?thesis .
qed

lemmas scene_eval =
  parentItem_def createGraph_def newGraph_def Let_def getGraph_def updGraph_def itemScenePos_def
  scenePos_toParent getNode_def getEdge_def updEdge_def updNode_def mapItems_def moveItem_def
  dropItem_def addChild_def emit_def disposeGraph_def place_def wire_def

lemmas join_eval =
  keyReleaseEvent_J_def joinSelected_def twoNodeJoin_def fourNodeJoin_def finishJoin_def
  rewire_def removeEdge_def funpow_moveBy animate_setRotation centerGraph_def

lemmas split_eval =
  searchAndSeparate_def indexOf_def sasRound_def traverse_done traverse_pass visitNode_def
  visitEdge_def unseen_def enqueue_def separate_def advance_in advance_out sasLoop_end
  sasLoop_round upt_rec

subsection \<open>Join and split\<close>

text \<open>
  Claim C7.  The two-node join of the path 2 - 3 (graph 8) and the path 4 - 5 (graph 9)
  at the anchors 3 and 4 leaves exactly one Graph, the new one; its nodes are 2, 3 and
  5 (node 4 is merged into 3 and deleted), its edges are 2 - 3 and 3 - 5, two edges,
  and the graphs 8 and 9 are gone from the scene and from \<open>canvasGraphList\<close>.
\<close>

theorem twoNodeJoin_reconstitutes:
  "\<exists>s' R. keyReleaseEvent_J isInt number
             ((twoPaths A B x1 x2 y1 y2 e1 e2 f1 f2)\<lparr>connectNode1a := Some 3, connectNode2a := Some 4\<rparr>)
           = Some s'
     \<and> graphs s' = [(10, R)] \<and> canvasGraphList s' = [10]
     \<and> map nodeRef (nodeChildren (childItems R)) = [2, 3, 5]
     \<and> map edgeEnds (edgeChildren (childItems R)) = [(6, {2, 3}), (7, {3, 5})]
     \<and> length (edgeChildren (childItems R)) = 2
     \<and> emitted s' = [graphJoined]"
proof (cases "isInt (nlabel x2)")
  case True
  then show ?thesis
    unfolding twoPaths_def
    by (cases f1; cases f2) (simp_all add: scene_eval join_eval edgeEnds_def insert_commute)
next
  case False
  then show ?thesis
    unfolding twoPaths_def
    by (cases f1; cases f2) (simp_all add: scene_eval join_eval edgeEnds_def insert_commute)
qed

text \<open>
  Claim C2, as amended.  \<open>searchAndSeparate\<close> with the list [2, 4] on the Graph with the
  components {2, 3} and {4, 5} yields exactly two Graphs: a new Graph with the nodes 2
  and 3 and their edge, and the original Graph, which keeps the nodes 4 and 5 and
  their edge.
\<close>

theorem split_leaves_last_component:
  "\<exists>s' G1 G2. searchAndSeparate [2, 4] (twoComponents G a b c d ab cd f1 f2) = Some s'
     \<and> graphs s' = [(8, G1), (9, G2)] \<and> canvasGraphList s' = [8, 9]
     \<and> map itemRef (childItems G1) = [NodeRef 4, NodeRef 5, EdgeRef 7]
     \<and> map itemRef (childItems G2) = [NodeRef 2, NodeRef 3, EdgeRef 6]
     \<and> map edgeEnds (edgeChildren (childItems G1)) = [(7, {4, 5})]
     \<and> map edgeEnds (edgeChildren (childItems G2)) = [(6, {2, 3})]
     \<and> emitted s' = [graphSeparated]"
  unfolding twoComponents_def
  by (cases f1; cases f2) (simp_all add: scene_eval split_eval edgeEnds_def insert_commute)

text \<open>
  Claim C9, as amended.  The join checks the Graphs of the selected nodes itself: the
  two-node join does nothing when both nodes have the same parent Graph, and the
  four-node join does nothing when a node of the first pair has the same parent Graph
  as a node of the second pair.  Then no Graph is created or deleted, no item is
  changed and no signal is emitted; the key press only clears the selection.
\<close>

theorem join_guard_refuses:
  "(connectNode1a s = Some n1 \<and> connectNode2a s = Some n2
      \<and> (connectNode1b s = None \<or> connectNode2b s = None)
      \<and> parentItem s (NodeRef n1) \<noteq> None
      \<and> parentItem s (NodeRef n1) = parentItem s (NodeRef n2)
    \<longrightarrow> (\<exists>s'. keyReleaseEvent_J isInt number s = Some s' \<and> sameScene s s'))
   \<and> (connectNode1a s = Some n1a \<and> connectNode1b s = Some n1b
      \<and> connectNode2a s = Some n2a \<and> connectNode2b s = Some n2b
      \<and> parentItem s (NodeRef n1a) \<noteq> None \<and> parentItem s (NodeRef n1b) \<noteq> None
      \<and> parentItem s (NodeRef n2a) \<noteq> None \<and> parentItem s (NodeRef n2b) \<noteq> None
      \<and> (parentItem s (NodeRef n1a) = parentItem s (NodeRef n2a)
           \<or> parentItem s (NodeRef n1a) = parentItem s (NodeRef n2b)
           \<or> parentItem s (NodeRef n1b) = parentItem s (NodeRef n2a)
           \<or> parentItem s (NodeRef n1b) = parentItem s (NodeRef n2b))
    \<longrightarrow> (\<exists>s'. keyReleaseEvent_J isInt number s = Some s' \<and> sameScene s s'))"
proof (intro conjI impI)
  assume h: "connectNode1a s = Some n1 \<and> connectNode2a s = Some n2
      \<and> (connectNode1b s = None \<or> connectNode2b s = None)
      \<and> parentItem s (NodeRef n1) \<noteq> None
      \<and> parentItem s (NodeRef n1) = parentItem s (NodeRef n2)"
  then have ne: "parentItem s (NodeRef n1) \<noteq> None"
    and eq: "parentItem s (NodeRef n1) = parentItem s (NodeRef n2)" by blast+
  from ne obtain p where p1: "parentItem s (NodeRef n1) = Some p" by (cases "parentItem s (NodeRef n1)") auto
  with eq have p2: "parentItem s (NodeRef n2) = Some p" by simp
  note p = p1 p2
  have "twoNodeJoin isInt number n1 n2 s = Some s"
    by (simp add: twoNodeJoin_def p)
  moreover have "joinSelected isInt number s = twoNodeJoin isInt number n1 n2 s"
    using h by (auto simp: joinSelected_def)
  ultimately show "\<exists>s'. keyReleaseEvent_J isInt number s = Some s' \<and> sameScene s s'"
    by (simp add: keyReleaseEvent_J_def sameScene_def)
next
  assume h: "connectNode1a s = Some n1a \<and> connectNode1b s = Some n1b
      \<and> connectNode2a s = Some n2a \<and> connectNode2b s = Some n2b
      \<and> parentItem s (NodeRef n1a) \<noteq> None \<and> parentItem s (NodeRef n1b) \<noteq> None
      \<and> parentItem s (NodeRef n2a) \<noteq> None \<and> parentItem s (NodeRef n2b) \<noteq> None
      \<and> (parentItem s (NodeRef n1a) = parentItem s (NodeRef n2a)
           \<or> parentItem s (NodeRef n1a) = parentItem s (NodeRef n2b)
           \<or> parentItem s (NodeRef n1b) = parentItem s (NodeRef n2a)
           \<or> parentItem s (NodeRef n1b) = parentItem s (NodeRef n2b))"
  then have ne: "parentItem s (NodeRef n1a) \<noteq> None" "parentItem s (NodeRef n1b) \<noteq> None"
      "parentItem s (NodeRef n2a) \<noteq> None" "parentItem s (NodeRef n2b) \<noteq> None" by blast+
  from ne(1) obtain p1a where a: "parentItem s (NodeRef n1a) = Some p1a"
    by (cases "parentItem s (NodeRef n1a)") auto
  from ne(2) obtain p1b where b: "parentItem s (NodeRef n1b) = Some p1b"
    by (cases "parentItem s (NodeRef n1b)") auto
  from ne(3) obtain p2a where c: "parentItem s (NodeRef n2a) = Some p2a"
    by (cases "parentItem s (NodeRef n2a)") auto
  from ne(4) obtain p2b where d: "parentItem s (NodeRef n2b) = Some p2b"
    by (cases "parentItem s (NodeRef n2b)") auto
  note p = a b c d
  with h have "\<not> (p1a \<noteq> p2a \<and> p1a \<noteq> p2b \<and> p1b \<noteq> p2a \<and> p1b \<noteq> p2b)"
    by auto
  then have "fourNodeJoin isInt number n1a n1b n2a n2b s = Some s"
    by (auto simp: fourNodeJoin_def p)
  moreover have "joinSelected isInt number s = fourNodeJoin isInt number n1a n1b n2a n2b s"
    using h by (simp add: joinSelected_def)
  ultimately show "\<exists>s'. keyReleaseEvent_J isInt number s = Some s' \<and> sameScene s s'"
    by (simp add: keyReleaseEvent_J_def sameScene_def)
qed

lemma joinExample_parents:
  "parentItem joinExample (NodeRef 2) = Some 8" "parentItem joinExample (NodeRef 3) = Some 8"
  "parentItem joinExample (NodeRef 4) = Some 9" "parentItem joinExample (NodeRef 5) = Some 9"
  by (simp_all add: joinExample_def twoPaths_def parentItem_def place_def)

lemma parentItem_select:
  "parentItem (s\<lparr>connectNode1a := a, connectNode1b := b, connectNode2a := c, connectNode2b := d\<rparr>) r
     = parentItem s r"
  "parentItem (s\<lparr>connectNode1a := a, connectNode2a := c\<rparr>) r = parentItem s r"
  by (simp_all add: parentItem_def)

text \<open>The amended claim C9 at two nodes of one Graph and at four nodes of one Graph.\<close>

theorem join_guard_refuses_witness:
  "(\<exists>s'. keyReleaseEvent_J (\<lambda>l. False) (\<lambda>n. []) sameContainerPair = Some s'
          \<and> sameScene sameContainerPair s')
   \<and> (\<exists>s'. keyReleaseEvent_J (\<lambda>l. False) (\<lambda>n. []) sharedContainerFour = Some s'
          \<and> sameScene sharedContainerFour s')"
proof
  show "\<exists>s'. keyReleaseEvent_J (\<lambda>l. False) (\<lambda>n. []) sameContainerPair = Some s'
          \<and> sameScene sameContainerPair s'"
    using join_guard_refuses [of sameContainerPair 2 3 "\<lambda>l. False" "\<lambda>n. []"]
    by (simp add: sameContainerPair_def parentItem_select joinExample_parents)
      (simp add: joinExample_def twoPaths_def)
next
  show "\<exists>s'. keyReleaseEvent_J (\<lambda>l. False) (\<lambda>n. []) sharedContainerFour = Some s'
          \<and> sameScene sharedContainerFour s'"
    using join_guard_refuses [of sharedContainerFour _ _ "\<lambda>l. False" "\<lambda>n. []" 2 3 3 2]
    by (simp add: sharedContainerFour_def parentItem_select joinExample_parents)
qed

text \<open>
  Claim C9, as stated, fails: with the node 3 selected as both nodes of the first pair
  (the anchors are not distinct) and 4, 5 as the second pair, the check passes and the
  join is carried out; the graphs 8 and 9 are replaced by the new Graph 10 and
  \<open>graphJoined\<close> is emitted.
\<close>

theorem join_guard_same_anchor_counterexample:
  "connectNode1a sameAnchorTwice = connectNode1b sameAnchorTwice
   \<and> observe sameAnchorTwice = ([(8, [NodeRef 2, NodeRef 3, EdgeRef 6]), (9, [NodeRef 4, NodeRef 5, EdgeRef 7])], [])
   \<and> map_option observe (keyReleaseEvent_J (\<lambda>l. False) (\<lambda>n. []) sameAnchorTwice)
       = Some ([(10, [NodeRef 2, NodeRef 3, EdgeRef 6])], [graphJoined])"
  unfolding sameAnchorTwice_def joinExample_def twoPaths_def
  by (simp add: scene_eval join_eval observe_def sceneContents_def plainNode_def newNode_def plainEdge_def)




text \<open>
  The four-node join of the paths 2 - 3 and 4 - 5 at the anchors (2, 3) and (4, 5): of
  the two edges before the join, one is left in the new Graph.
\<close>

theorem fourNodeJoin_removes_duplicate:
  "\<exists>s' R. keyReleaseEvent_J isInt number
             ((twoPaths A B x1 x2 y1 y2 e1 e2 f1 f2)
                \<lparr>connectNode1a := Some 2, connectNode1b := Some 3,
                  connectNode2a := Some 4, connectNode2b := Some 5\<rparr>)
           = Some s'
     \<and> graphs s' = [(10, R)] \<and> canvasGraphList s' = [10]
     \<and> map nodeRef (nodeChildren (childItems R)) = [2, 3]
     \<and> map edgeEnds (edgeChildren (childItems R)) = [(6, {2, 3})]
     \<and> emitted s' = [graphJoined]"
proof (cases "isInt (nlabel x1)")
  case True
  then show ?thesis
    unfolding twoPaths_def
    by (cases f1; cases f2) (simp_all add: scene_eval join_eval edgeEnds_def insert_commute)
next
  case False
  then show ?thesis
    unfolding twoPaths_def
    by (cases f1; cases f2) (simp_all add: scene_eval join_eval edgeEnds_def insert_commute)
qed

text \<open>
  Claim C2, as stated, fails in its last part: the original Graph 8 is neither deleted
  nor empty after the call; it holds the nodes 4 and 5 and the edge 7.
\<close>

theorem split_keeps_last_component_counterexample:
  "map_option observe (searchAndSeparate [2, 4] splitExample)
     = Some ([(8, [NodeRef 4, NodeRef 5, EdgeRef 7]), (9, [NodeRef 2, NodeRef 3, EdgeRef 6])],
             [graphSeparated])"
  unfolding splitExample_def twoComponents_def
  by (simp add: scene_eval split_eval observe_def sceneContents_def)

end
